theory Spec2Isabelle
  imports Main "HOL-Library.Signed_Division"
begin

section \<open>Numbers, coordinates and the terminal\<close>

text \<open>
  JavaScript numbers are modelled as \<open>int\<close>: every number the selection code handles is a
  column, a row, a length or a string index. A coordinate pair \<open>[x, y]\<close> is \<open>(column, row)\<close>;
  \<open>null\<close> is \<open>None\<close>.

  \<open>a % b\<close> takes the sign of the dividend (\<open>smod\<close>), \<open>Math.floor(a / b)\<close> rounds down
  (\<open>div\<close> on \<open>int\<close>). For \<open>b = 0\<close> JavaScript yields \<open>NaN\<close> and an infinity, which \<open>int\<close>
  does not have: statements about the wrapped end assume a non-zero column count.
\<close>

type_synonym coords = "int \<times> int"

definition js_rem :: "int \<Rightarrow> int \<Rightarrow> int" where
  "js_rem a b = a smod b"

definition math_floor_div :: "int \<Rightarrow> int \<Rightarrow> int" where
  "math_floor_div a b = a div b"

text \<open>
  The terminal, as far as the selection code reads it: \<open>_terminal.cols\<close>, \<open>_terminal.rows\<close>,
  \<open>_terminal.buffer.ybase\<close> and the rows of the active buffer (\<open>buffer.lines\<close>).

  A string is the list of its UTF-16 code units, so \<open>length\<close> is JavaScript's \<open>.length\<close>.
  A cell (\<open>CharData\<close>) holds its string (\<open>CHAR_DATA_CHAR_INDEX\<close>), its display width
  (\<open>CHAR_DATA_WIDTH_INDEX\<close>) and its code point (\<open>CHAR_DATA_CODE_INDEX\<close>); the attribute
  word is never read by this code and is left out.
\<close>

type_synonym jsstring = "nat list"

record chardata =
  char_data_char :: jsstring
  char_data_width :: int
  char_data_code :: int

text \<open>
  A row (\<open>IBufferLine\<close>) holds its cells and its \<open>isWrapped\<close> flag. What the row's \<open>get\<close>
  returns for a column outside the row is decided by the row's class, which is not part of
  the source at hand. It is therefore a parameter of the row, \<open>getOutside\<close>: \<open>None\<close> for a
  class that returns \<open>undefined\<close> there (an array of cells), \<open>Some c\<close> for a class that
  returns a cell \<open>c\<close> at every index.
\<close>

record bufferline =
  cells :: "chardata list"
  isWrapped :: bool
  getOutside :: "chardata option"

record terminal =
  cols :: int
  rows :: int
  ybase :: int
  lines :: "bufferline list"

section \<open>HighlightModel\<close>

record highlightmodel =
  isHighlightAllActive :: bool
  highlightStart :: "coords option"
  highlightStartLength :: int
  highlightEnd :: "coords option"

definition clearHighlight :: "highlightmodel \<Rightarrow> highlightmodel" where
  "clearHighlight m =
     m\<lparr>highlightStart := None, highlightEnd := None,
       isHighlightAllActive := False, highlightStartLength := 0\<rparr>"

definition areHighlightValuesReversed :: "highlightmodel \<Rightarrow> bool" where
  "areHighlightValuesReversed m =
     (case (highlightStart m, highlightEnd m) of
        (Some start, Some end') \<Rightarrow>
          snd start > snd end' \<or> (snd start = snd end' \<and> fst start > fst end')
      | _ \<Rightarrow> False)"

definition finalHighlightStart :: "highlightmodel \<Rightarrow> coords option" where
  "finalHighlightStart m =
     (if isHighlightAllActive m then Some (0, 0)
      else if highlightEnd m = None \<or> highlightStart m = None then highlightStart m
      else if areHighlightValuesReversed m then highlightEnd m else highlightStart m)"

definition finalHighlightEnd :: "terminal \<Rightarrow> highlightmodel \<Rightarrow> coords option" where
  "finalHighlightEnd t m =
     (if isHighlightAllActive m then Some (cols t, ybase t + rows t - 1)
      else case highlightStart m of
        None \<Rightarrow> None
      | Some start \<Rightarrow>
          if highlightEnd m = None \<or> areHighlightValuesReversed m then
            (let startPlusLength = fst start + highlightStartLength m in
             if startPlusLength > cols t then
               Some (js_rem startPlusLength (cols t),
                     snd start + math_floor_div startPlusLength (cols t))
             else Some (startPlusLength, snd start))
          else
            (case highlightEnd m of
               None \<Rightarrow> None
             | Some end' \<Rightarrow>
                 if highlightStartLength m \<noteq> 0 \<and> snd end' = snd start then
                   Some (max (fst start + highlightStartLength m) (fst end'), snd end')
                 else Some end'))"

text \<open>
  \<open>onTrim\<close> mutates the two coordinate arrays in place and returns whether a refresh is
  needed; the model returns the new state with the flag. The statements follow the source
  in order: shift the start row, shift the end row, clear when the end left the buffer,
  else put a negative start row back to 0.
\<close>

definition onTrim :: "int \<Rightarrow> highlightmodel \<Rightarrow> highlightmodel \<times> bool" where
  "onTrim amount m =
     (let m1 = (case highlightStart m of
                  None \<Rightarrow> m
                | Some start \<Rightarrow> m\<lparr>highlightStart := Some (fst start, snd start - amount)\<rparr>);
          m2 = (case highlightEnd m1 of
                  None \<Rightarrow> m1
                | Some end' \<Rightarrow> m1\<lparr>highlightEnd := Some (fst end', snd end' - amount)\<rparr>)
      in if (case highlightEnd m2 of None \<Rightarrow> False | Some end' \<Rightarrow> snd end' < 0)
         then (clearHighlight m2, True)
         else if (case highlightStart m2 of None \<Rightarrow> False | Some start \<Rightarrow> snd start < 0)
         then (m2\<lparr>highlightStart := map_option (\<lambda>start. (fst start, 0)) (highlightStart m2)\<rparr>,
               False)
         else (m2, False))"

section \<open>HighlightManager: line ranges\<close>

text \<open>
  \<open>highlightLines\<close> works on the manager's model; \<open>refresh\<close> and the emitted event do not
  touch it. \<open>buffer.lines.length\<close> is the number of rows.
\<close>

definition highlightLines :: "terminal \<Rightarrow> int \<Rightarrow> int \<Rightarrow> highlightmodel \<Rightarrow> highlightmodel" where
  "highlightLines t start end' m =
     (let m0 = clearHighlight m;
          start1 = max start 0;
          end1 = min end' (int (length (lines t)) - 1)
      in m0\<lparr>highlightStart := Some (0, start1), highlightEnd := Some (cols t, end1)\<rparr>)"

definition setHighlight :: "int \<Rightarrow> int \<Rightarrow> int \<Rightarrow> highlightmodel \<Rightarrow> highlightmodel" where
  "setHighlight col row len m =
     (clearHighlight m)\<lparr>highlightStart := Some (col, row), highlightStartLength := len\<rparr>"

section \<open>Strings, cells and rows\<close>

text \<open>
  The one exception the selection code can raise: reading a property of \<open>undefined\<close>
  (a \<open>TypeError\<close>). Fallible functions return \<open>error + 'a\<close>, \<open>Inl\<close> being the exception.
\<close>

datatype error = TypeError

text \<open>\<open>String.prototype.charAt\<close>: the empty string outside the string.\<close>

definition charAt :: "jsstring \<Rightarrow> int \<Rightarrow> jsstring" where
  "charAt s i = (if 0 \<le> i \<and> i < int (length s) then [s ! nat i] else [])"

text \<open>
  \<open>String.prototype.slice(start, end)\<close>: a negative index counts from the end of the string,
  both indices are clamped to the string, and an empty range gives the empty string.
\<close>

definition js_slice :: "jsstring \<Rightarrow> int \<Rightarrow> int \<Rightarrow> jsstring" where
  "js_slice s a b =
     (let len = int (length s);
          from = (if a < 0 then max (len + a) 0 else min a len);
          to = (if b < 0 then max (len + b) 0 else min b len)
      in if from < to then take (nat (to - from)) (drop (nat from) s) else [])"

text \<open>\<open>String.prototype.trim\<close> removes white space and line terminators at both ends.\<close>

definition js_whitespace :: "nat \<Rightarrow> bool" where
  "js_whitespace u =
     (u \<in> set [9, 10, 11, 12, 13, 32, 160, 5760, 8232, 8233, 8239, 8287, 12288, 65279]
      \<or> (8192 \<le> u \<and> u \<le> 8202))"

definition js_trim :: "jsstring \<Rightarrow> jsstring" where
  "js_trim s = rev (dropWhile js_whitespace (rev (dropWhile js_whitespace s)))"

text \<open>
  \<open>String.prototype.indexOf\<close> with a string argument: the first position at which the
  argument occurs as a substring, \<open>-1\<close> when there is none. The empty string occurs at 0.
\<close>

fun indexOfFrom :: "jsstring \<Rightarrow> jsstring \<Rightarrow> int \<Rightarrow> int" where
  "indexOfFrom [] needle k = (if needle = [] then k else - 1)"
| "indexOfFrom (c # rest) needle k =
     (if take (length needle) (c # rest) = needle then k else indexOfFrom rest needle (k + 1))"

definition js_indexOf :: "jsstring \<Rightarrow> jsstring \<Rightarrow> int" where
  "js_indexOf s needle = indexOfFrom s needle 0"

text \<open>\<open>WORD_SEPARATORS = ' ()[]{}\'"'\<close>, as code units.\<close>

definition WORD_SEPARATORS :: jsstring where
  "WORD_SEPARATORS = [32, 40, 41, 91, 93, 123, 125, 39, 34]"

definition NON_BREAKING_SPACE_CHAR :: nat where
  "NON_BREAKING_SPACE_CHAR = 160"

text \<open>
  \<open>IBufferLine.get\<close>: inside the row, the cell at the column; outside the row, what the
  row's class returns there (the parameter \<open>getOutside\<close>). \<open>None\<close> is \<open>undefined\<close>, and a
  caller that reads a property of it throws.
\<close>

definition bufferLineGet :: "bufferline \<Rightarrow> int \<Rightarrow> chardata option" where
  "bufferLineGet bufferLine i =
     (if 0 \<le> i \<and> i < int (length (cells bufferLine)) then Some (cells bufferLine ! nat i)
      else getOutside bufferLine)"

text \<open>
  Modelled from the spec: \<open>buffer.lines.get\<close>, whose class is not part of the source at
  hand. The buffer is an ordered sequence of rows and a lookup gives the row or nothing.
\<close>

definition linesGet :: "terminal \<Rightarrow> int \<Rightarrow> bufferline option" where
  "linesGet t i =
     (if 0 \<le> i \<and> i < int (length (lines t)) then Some (lines t ! nat i) else None)"

text \<open>
  Modelled from the spec: \<open>translateBufferLineToString(row, false)\<close> over the whole row, the
  row's rendered form: the strings of its cells in column order, the width-0 continuation
  cells omitted.
\<close>

definition renderCells :: "chardata list \<Rightarrow> jsstring" where
  "renderCells cs = concat (map char_data_char (filter (\<lambda>c. char_data_width c \<noteq> 0) cs))"

definition translateBufferLineToString :: "bufferline \<Rightarrow> jsstring" where
  "translateBufferLineToString bufferLine = renderCells (cells bufferLine)"

section \<open>HighlightManager: columns and string indices\<close>

text \<open>
  \<open>_convertViewportColToCharacterIndex\<close>: the loop \<open>for (i = 0; coords[0] >= i; i++)\<close> with
  its running \<open>charIndex\<close>. Reading a cell outside the row throws.
\<close>

function convertLoop :: "bufferline \<Rightarrow> int \<Rightarrow> int \<Rightarrow> int \<Rightarrow> error + int" where
  "convertLoop bufferLine col i charIndex =
     (if col \<ge> i then
        (case bufferLineGet bufferLine i of
           None \<Rightarrow> Inl TypeError
         | Some char \<Rightarrow>
             if char_data_width char = 0 then
               convertLoop bufferLine col (i + 1) (charIndex - 1)
             else if length (char_data_char char) > 1 \<and> col \<noteq> i then
               convertLoop bufferLine col (i + 1)
                 (charIndex + (int (length (char_data_char char)) - 1))
             else convertLoop bufferLine col (i + 1) charIndex)
      else Inr charIndex)"
  by pat_completeness auto
termination
  by (relation "measure (\<lambda>(bufferLine, col, i, charIndex). nat (col + 1 - i))") auto

definition convertViewportColToCharacterIndex :: "bufferline \<Rightarrow> coords \<Rightarrow> error + int" where
  "convertViewportColToCharacterIndex bufferLine coords =
     convertLoop bufferLine (fst coords) 0 (fst coords)"

definition isCharWordSeparator :: "chardata \<Rightarrow> bool" where
  "isCharWordSeparator charData =
     (if char_data_width charData = 0 then False
      else js_indexOf WORD_SEPARATORS (char_data_char charData) \<ge> 0)"

section \<open>HighlightManager: the word at a position\<close>

text \<open>
  The four \<open>while\<close> loops of \<open>_getWordAt\<close>. The two white-space loops move a string index;
  the two word loops move a column and a string index together and count the wide cells
  and the extra code units they pass. The loop conditions short-circuit as in the source,
  so a cell is read only after the guards before it hold.
\<close>

function expandWhitespaceLeft :: "jsstring \<Rightarrow> int \<Rightarrow> int" where
  "expandWhitespaceLeft line startIndex =
     (if startIndex > 0 \<and> charAt line (startIndex - 1) = [32]
      then expandWhitespaceLeft line (startIndex - 1) else startIndex)"
  by pat_completeness auto
termination
  by (relation "measure (\<lambda>(line, startIndex). nat startIndex)") auto

function expandWhitespaceRight :: "jsstring \<Rightarrow> int \<Rightarrow> int" where
  "expandWhitespaceRight line endIndex =
     (if endIndex < int (length line) \<and> charAt line (endIndex + 1) = [32]
      then expandWhitespaceRight line (endIndex + 1) else endIndex)"
  by pat_completeness auto
termination
  by (relation "measure (\<lambda>(line, endIndex). nat (int (length line) - endIndex))") auto

text \<open>State of the left loop: \<open>(startCol, startIndex, leftWideCharCount, leftLongCharOffset)\<close>.\<close>

function expandWordLeft :: "bufferline \<Rightarrow> int \<times> int \<times> int \<times> int \<Rightarrow> error + (int \<times> int \<times> int \<times> int)" where
  "expandWordLeft bufferLine (startCol, startIndex, leftWideCharCount, leftLongCharOffset) =
     (if startCol > 0 \<and> startIndex > 0 then
        (case bufferLineGet bufferLine (startCol - 1) of
           None \<Rightarrow> Inl TypeError
         | Some char \<Rightarrow>
             if isCharWordSeparator char then
               Inr (startCol, startIndex, leftWideCharCount, leftLongCharOffset)
             else if char_data_width char = 0 then
               expandWordLeft bufferLine
                 (startCol - 1 - 1, startIndex - 1, leftWideCharCount + 1, leftLongCharOffset)
             else if length (char_data_char char) > 1 then
               expandWordLeft bufferLine
                 (startCol - 1, startIndex - (int (length (char_data_char char)) - 1) - 1,
                  leftWideCharCount,
                  leftLongCharOffset + (int (length (char_data_char char)) - 1))
             else
               expandWordLeft bufferLine
                 (startCol - 1, startIndex - 1, leftWideCharCount, leftLongCharOffset))
      else Inr (startCol, startIndex, leftWideCharCount, leftLongCharOffset))"
  by pat_completeness auto
termination
  by (relation "measure (\<lambda>(bufferLine, startCol, rest). nat startCol)") auto

text \<open>State of the right loop: \<open>(endCol, endIndex, rightWideCharCount, rightLongCharOffset)\<close>.\<close>

function expandWordRight :: "bufferline \<Rightarrow> jsstring \<Rightarrow> int \<times> int \<times> int \<times> int \<Rightarrow> error + (int \<times> int \<times> int \<times> int)" where
  "expandWordRight bufferLine line (endCol, endIndex, rightWideCharCount, rightLongCharOffset) =
     (if endCol < int (length (cells bufferLine)) \<and> endIndex + 1 < int (length line) then
        (case bufferLineGet bufferLine (endCol + 1) of
           None \<Rightarrow> Inl TypeError
         | Some char \<Rightarrow>
             if isCharWordSeparator char then
               Inr (endCol, endIndex, rightWideCharCount, rightLongCharOffset)
             else if char_data_width char = 2 then
               expandWordRight bufferLine line
                 (endCol + 1 + 1, endIndex + 1, rightWideCharCount + 1, rightLongCharOffset)
             else if length (char_data_char char) > 1 then
               expandWordRight bufferLine line
                 (endCol + 1, endIndex + (int (length (char_data_char char)) - 1) + 1,
                  rightWideCharCount,
                  rightLongCharOffset + (int (length (char_data_char char)) - 1))
             else
               expandWordRight bufferLine line
                 (endCol + 1, endIndex + 1, rightWideCharCount, rightLongCharOffset))
      else Inr (endCol, endIndex, rightWideCharCount, rightLongCharOffset))"
  by pat_completeness auto
termination
  by (relation "measure (\<lambda>(bufferLine, line, endCol, rest).
        nat (int (length (cells bufferLine)) - endCol))") auto

text \<open>
  The part of \<open>_getWordAt\<close> that works inside one row (lines 500 to 598): the rendered
  line, the two string indices after the expansion and the final increment of \<open>endIndex\<close>,
  and the column \<open>start\<close> and \<open>length\<close> computed from them.
\<close>

record wordscan =
  scan_line :: jsstring
  scan_startIndex :: int
  scan_endIndex :: int
  scan_start :: int
  scan_length :: int

definition expandWord :: "bufferline \<Rightarrow> jsstring \<Rightarrow> coords \<Rightarrow> int \<Rightarrow> error + (int \<times> int \<times> int \<times> int \<times> int \<times> int)" where
  "expandWord bufferLine line coords startIndex0 =
     (case bufferLineGet bufferLine (fst coords) of
        None \<Rightarrow> Inl TypeError
      | Some initial \<Rightarrow>
          (let leftWideCharCount0 = (if char_data_width initial = 0 then 1 else 0);
               startCol0 = (if char_data_width initial = 0 then fst coords - 1 else fst coords);
               rightWideCharCount0 = (if char_data_width initial = 2 then 1 else 0);
               endCol0 = (if char_data_width initial = 2 then fst coords + 1 else fst coords)
           in case bufferLineGet bufferLine endCol0 of
                None \<Rightarrow> Inl TypeError
              | Some endChar \<Rightarrow>
                  (let extra = (if length (char_data_char endChar) > 1
                                then int (length (char_data_char endChar)) - 1 else 0)
                   in case expandWordLeft bufferLine
                             (startCol0, startIndex0, leftWideCharCount0, 0) of
                        Inl e \<Rightarrow> Inl e
                      | Inr (startCol, startIndex, leftWideCharCount, leftLongCharOffset) \<Rightarrow>
                          (case expandWordRight bufferLine line
                                  (endCol0, startIndex0 + extra, rightWideCharCount0, extra) of
                             Inl e \<Rightarrow> Inl e
                           | Inr (endCol, endIndex, rightWideCharCount, rightLongCharOffset) \<Rightarrow>
                               Inr (startIndex, endIndex, leftWideCharCount, rightWideCharCount,
                                    leftLongCharOffset, rightLongCharOffset)))))"

definition scanWordInRow :: "terminal \<Rightarrow> bufferline \<Rightarrow> coords \<Rightarrow> error + wordscan" where
  "scanWordInRow t bufferLine coords =
     (let line = translateBufferLineToString bufferLine
      in case convertViewportColToCharacterIndex bufferLine coords of
           Inl e \<Rightarrow> Inl e
         | Inr startIndex0 \<Rightarrow>
             (let charOffset = fst coords - startIndex0
              in case (if charAt line startIndex0 = [32]
                       then Inr (expandWhitespaceLeft line startIndex0,
                                 expandWhitespaceRight line startIndex0, 0, 0, 0, 0)
                       else expandWord bufferLine line coords startIndex0) of
                   Inl e \<Rightarrow> Inl e
                 | Inr (startIndex, endIndex0, leftWideCharCount, rightWideCharCount,
                        leftLongCharOffset, rightLongCharOffset) \<Rightarrow>
                     (let endIndex = endIndex0 + 1;
                          start = startIndex + charOffset - leftWideCharCount + leftLongCharOffset;
                          length' = min (cols t)
                            (endIndex - startIndex + leftWideCharCount + rightWideCharCount
                               - leftLongCharOffset - rightLongCharOffset)
                      in Inr \<lparr>scan_line = line, scan_startIndex = startIndex,
                              scan_endIndex = endIndex, scan_start = start,
                              scan_length = length'\<rparr>)))"

text \<open>
  The conditions under which the word continues on the row above (lines 606 to 608) and on
  the row below (lines 621 to 623), with the source's short-circuit order.
\<close>

definition wrapsFromAbove :: "terminal \<Rightarrow> bufferline \<Rightarrow> coords \<Rightarrow> int \<Rightarrow> error + bool" where
  "wrapsFromAbove t bufferLine coords start =
     (if start = 0 then
        (case bufferLineGet bufferLine 0 of
           None \<Rightarrow> Inl TypeError
         | Some firstChar \<Rightarrow>
             if char_data_code firstChar \<noteq> 32 then
               (case linesGet t (snd coords - 1) of
                  None \<Rightarrow> Inr False
                | Some previousBufferLine \<Rightarrow>
                    if isWrapped bufferLine then
                      (case bufferLineGet previousBufferLine (cols t - 1) of
                         None \<Rightarrow> Inl TypeError
                       | Some lastChar \<Rightarrow> Inr (char_data_code lastChar \<noteq> 32))
                    else Inr False)
             else Inr False)
      else Inr False)"

definition wrapsIntoBelow :: "terminal \<Rightarrow> bufferline \<Rightarrow> coords \<Rightarrow> int \<Rightarrow> int \<Rightarrow> error + bool" where
  "wrapsIntoBelow t bufferLine coords start length' =
     (if start + length' = cols t then
        (case bufferLineGet bufferLine (cols t - 1) of
           None \<Rightarrow> Inl TypeError
         | Some lastChar \<Rightarrow>
             if char_data_code lastChar \<noteq> 32 then
               (case linesGet t (snd coords + 1) of
                  None \<Rightarrow> Inr False
                | Some nextBufferLine \<Rightarrow>
                    if isWrapped nextBufferLine then
                      (case bufferLineGet nextBufferLine 0 of
                         None \<Rightarrow> Inl TypeError
                       | Some firstChar \<Rightarrow> Inr (char_data_code firstChar \<noteq> 32))
                    else Inr False)
             else Inr False)
      else Inr False)"

record wordposition =
  wstart :: int
  wlength :: int

text \<open>
  \<open>_getWordAt\<close>. \<open>null\<close> is \<open>Inr None\<close>, a word position \<open>Inr (Some _)\<close>, an exception \<open>Inl _\<close>.
  The call on the row above passes \<open>(false, true, false)\<close>, the call on the row below
  \<open>(false, false, true)\<close>; a \<open>null\<close> from either leaves \<open>start\<close> and \<open>length\<close> as they are.
\<close>

function getWordAt :: "terminal \<Rightarrow> coords \<Rightarrow> bool \<Rightarrow> bool \<Rightarrow> bool \<Rightarrow> error + wordposition option" where
  "getWordAt t coords allowWhitespaceOnlyHighlight followWrappedLinesAbove followWrappedLinesBelow =
     (if fst coords \<ge> cols t then Inr None
      else case linesGet t (snd coords) of
        None \<Rightarrow> Inr None
      | Some bufferLine \<Rightarrow>
          (case scanWordInRow t bufferLine coords of
             Inl e \<Rightarrow> Inl e
           | Inr scan \<Rightarrow>
               if \<not> allowWhitespaceOnlyHighlight \<and>
                  js_trim (js_slice (scan_line scan) (scan_startIndex scan) (scan_endIndex scan)) = []
               then Inr None
               else
                 (case (if followWrappedLinesAbove then
                          (case wrapsFromAbove t bufferLine coords (scan_start scan) of
                             Inl e \<Rightarrow> Inl e
                           | Inr False \<Rightarrow> Inr None
                           | Inr True \<Rightarrow>
                               getWordAt t (cols t - 1, snd coords - 1) False True False)
                        else Inr None) of
                    Inl e \<Rightarrow> Inl e
                  | Inr previousLineWordPosition \<Rightarrow>
                      (let offset = (case previousLineWordPosition of
                                       None \<Rightarrow> 0
                                     | Some p \<Rightarrow> cols t - wstart p);
                           start = scan_start scan - offset;
                           length' = scan_length scan + offset
                       in case (if followWrappedLinesBelow then
                                  (case wrapsIntoBelow t bufferLine coords start length' of
                                     Inl e \<Rightarrow> Inl e
                                   | Inr False \<Rightarrow> Inr None
                                   | Inr True \<Rightarrow>
                                       getWordAt t (0, snd coords + 1) False False True)
                                else Inr None) of
                            Inl e \<Rightarrow> Inl e
                          | Inr nextLineWordPosition \<Rightarrow>
                              Inr (Some \<lparr>wstart = start,
                                         wlength = (case nextLineWordPosition of
                                                      None \<Rightarrow> length'
                                                    | Some p \<Rightarrow> length' + wlength p)\<rparr>)))))"
  by pat_completeness auto
termination
  by (relation "measure (\<lambda>(t, coords, allow, above, below).
        (if above then nat (snd coords + 1) else 0) +
        (if below then nat (int (length (lines t)) - snd coords) else 0))")
     (auto simp: linesGet_def split: if_splits)

text \<open>
  The defining equation of \<open>getWordAt\<close> calls itself under its own conditions; it is
  unfolded by hand, at the call at issue.
\<close>

declare getWordAt.simps [simp del]

section \<open>HighlightManager: the highlighted text\<close>

datatype HighlightMode = NORMAL | WORD | LINE | COLUMN

text \<open>
  \<open>highlightText\<close>. The buffer's \<open>translateBufferLineToString(row, trimRight, startCol, endCol)\<close>
  with a column range is not part of the source at hand and is taken as the parameter
  \<open>translateRange\<close> (\<open>endCol = null\<close> is \<open>None\<close>); so is \<open>Browser.isMSWindows\<close>. Reading
  \<open>isWrapped\<close> of a row that does not exist throws.
\<close>

definition pushOrAppend :: "bufferline option \<Rightarrow> jsstring \<Rightarrow> jsstring list \<Rightarrow> error + jsstring list" where
  "pushOrAppend bufferLine lineText result =
     (case bufferLine of
        None \<Rightarrow> Inl TypeError
      | Some b \<Rightarrow>
          if isWrapped b then Inr (butlast result @ [last result @ lineText])
          else Inr (result @ [lineText]))"

function middleRows :: "(int \<Rightarrow> bool \<Rightarrow> int \<Rightarrow> int option \<Rightarrow> jsstring) \<Rightarrow> terminal \<Rightarrow> int \<Rightarrow> int \<Rightarrow> jsstring list \<Rightarrow> error + jsstring list" where
  "middleRows translateRange t i lastRow result =
     (if i \<le> lastRow then
        (case pushOrAppend (linesGet t i) (translateRange i True 0 None) result of
           Inl e \<Rightarrow> Inl e
         | Inr result' \<Rightarrow> middleRows translateRange t (i + 1) lastRow result')
      else Inr result)"
  by pat_completeness auto
termination
  by (relation "measure (\<lambda>(translateRange, t, i, lastRow, result). nat (lastRow + 1 - i))") auto

fun js_join :: "jsstring \<Rightarrow> jsstring list \<Rightarrow> jsstring" where
  "js_join sep [] = []"
| "js_join sep [x] = x"
| "js_join sep (x # y # ys) = x @ sep @ js_join sep (y # ys)"

definition formatResult :: "bool \<Rightarrow> jsstring list \<Rightarrow> jsstring" where
  "formatResult isMSWindows result =
     js_join (if isMSWindows then [13, 10] else [10])
       (map (map (\<lambda>u. if u = NON_BREAKING_SPACE_CHAR then 32 else u)) result)"

definition highlightText :: "(int \<Rightarrow> bool \<Rightarrow> int \<Rightarrow> int option \<Rightarrow> jsstring) \<Rightarrow> bool \<Rightarrow> terminal \<Rightarrow> HighlightMode \<Rightarrow> highlightmodel \<Rightarrow> error + jsstring" where
  "highlightText translateRange isMSWindows t activeHighlightMode m =
     (case (finalHighlightStart m, finalHighlightEnd t m) of
        (Some start, Some end') \<Rightarrow>
          if activeHighlightMode = COLUMN then
            (if fst start = fst end' then Inr []
             else Inr (formatResult isMSWindows
                    (map (\<lambda>i. translateRange i True (fst start) (Some (fst end')))
                       [snd start..snd end'])))
          else
            (let startRowEndCol = (if snd start = snd end' then Some (fst end') else None);
                 first = [translateRange (snd start) True (fst start) startRowEndCol]
             in case middleRows translateRange t (snd start + 1) (snd end' - 1) first of
                  Inl e \<Rightarrow> Inl e
                | Inr middle \<Rightarrow>
                    (case (if snd start \<noteq> snd end' then
                             pushOrAppend (linesGet t (snd end'))
                               (translateRange (snd end') True 0 (Some (fst end'))) middle
                           else Inr middle) of
                       Inl e \<Rightarrow> Inl e
                     | Inr result \<Rightarrow> Inr (formatResult isMSWindows result)))
      | _ \<Rightarrow> Inr [])"

section \<open>Example buffers\<close>

text \<open>
  A cell of width 1 holding one code unit. The rows of the examples return \<open>undefined\<close>
  outside the row, unless said otherwise.
\<close>

definition asciiCell :: "nat \<Rightarrow> chardata" where
  "asciiCell u = \<lparr>char_data_char = [u], char_data_width = 1, char_data_code = int u\<rparr>"

text \<open>
  Four columns; row 0 holds \<open>foob\<close>, row 1 is its wrapped continuation and holds \<open>ar\<close>
  followed by two spaces.
\<close>

definition foobRow :: bufferline where
  "foobRow = \<lparr>cells = map asciiCell [102, 111, 111, 98], isWrapped = False,
               getOutside = None\<rparr>"

definition arRow :: bufferline where
  "arRow = \<lparr>cells = map asciiCell [97, 114, 32, 32], isWrapped = True, getOutside = None\<rparr>"

definition foobarTerminal :: terminal where
  "foobarTerminal = \<lparr>cols = 4, rows = 2, ybase = 0, lines = [foobRow, arRow]\<rparr>"

text \<open>
  A wide character outside the basic plane: U+1F600 is the surrogate pair
  \<open>0xD83D 0xDE00\<close>, two code units in one cell of width 2, followed by its width-0
  continuation cell, whose string is empty.
\<close>

definition wideEmojiCell :: chardata where
  "wideEmojiCell = \<lparr>char_data_char = [55357, 56832], char_data_width = 2, char_data_code = 128512\<rparr>"

definition continuationCell :: chardata where
  "continuationCell = \<lparr>char_data_char = [], char_data_width = 0, char_data_code = 0\<rparr>"






text \<open>A buffer of ten empty rows.\<close>

definition tenRowTerminal :: terminal where
  "tenRowTerminal =
     \<lparr>cols = 80, rows = 10, ybase = 0,
      lines = replicate 10 \<lparr>cells = [], isWrapped = False, getOutside = None\<rparr>\<rparr>"

section \<open>Quantities the specification names\<close>



section \<open>Properties of HighlightModel\<close>

subsection \<open>Auxiliary facts\<close>

lemma wrap_row_advances: "0 < c \<Longrightarrow> c < x \<Longrightarrow> 1 \<le> x div (c::int)"
  using pos_imp_zdiv_pos_iff [of c x] by simp

lemma js_rem_nonneg: "0 \<le> a \<Longrightarrow> 0 < b \<Longrightarrow> js_rem a b = a mod b"
  by (simp add: js_rem_def signed_modulo_int_def sgn_if)

lemma areHighlightValuesReversed_both:
  "highlightStart m = Some s \<Longrightarrow> highlightEnd m = Some e \<Longrightarrow>
   areHighlightValuesReversed m = (snd s > snd e \<or> (snd s = snd e \<and> fst s > fst e))"
  by (simp add: areHighlightValuesReversed_def)

lemma areHighlightValuesReversed_unset:
  "highlightStart m = None \<or> highlightEnd m = None \<Longrightarrow> \<not> areHighlightValuesReversed m"
  by (auto simp: areHighlightValuesReversed_def split: option.splits)

lemma finalHighlightStart_both:
  "highlightStart m = Some s \<Longrightarrow> highlightEnd m = Some e \<Longrightarrow>
   finalHighlightStart m =
     (if isHighlightAllActive m then Some (0, 0)
      else if areHighlightValuesReversed m then Some e else Some s)"
  by (simp add: finalHighlightStart_def)

lemma finalHighlightEnd_from_length:
  assumes "\<not> isHighlightAllActive m" and "highlightStart m = Some s"
    and "highlightEnd m = None \<or> areHighlightValuesReversed m"
  shows "finalHighlightEnd t m =
     (if fst s + highlightStartLength m > cols t
      then Some (js_rem (fst s + highlightStartLength m) (cols t),
                 snd s + math_floor_div (fst s + highlightStartLength m) (cols t))
      else Some (fst s + highlightStartLength m, snd s))"
  unfolding finalHighlightEnd_def Let_def
  using assms by (simp only: option.simps if_True if_False simp_thms)

lemma finalHighlightEnd_forward:
  assumes "\<not> isHighlightAllActive m" and "highlightStart m = Some s"
    and "highlightEnd m = Some e" and "\<not> areHighlightValuesReversed m"
  shows "finalHighlightEnd t m =
     (if highlightStartLength m \<noteq> 0 \<and> snd e = snd s
      then Some (max (fst s + highlightStartLength m) (fst e), snd e) else Some e)"
  unfolding finalHighlightEnd_def
  using assms by (simp only: option.simps if_False simp_thms)

subsection \<open>The claims about the range model\<close>

text \<open>
  Claim C1 (normalization of the effective endpoints). With both raw endpoints set,
  non-negative columns, a non-negative start length and a positive column count, the final
  start is never after the final end: its row is at most the end's row and, on equal rows,
  its column is at most the end's column. This holds for either drag direction and for the
  wrapped start-plus-length end, and with highlight-all active, where the final start is
  \<open>(0, 0)\<close> and the final end \<open>(cols, ybase + rows - 1)\<close>. The terminal has at least one row
  and a base row that is not negative.
\<close>

theorem finalHighlight_normalized: 
  assumes s: "highlightStart m = Some s" and e: "highlightEnd m = Some e"
    and "0 \<le> fst s" "0 \<le> fst e" and len: "0 \<le> highlightStartLength m" and c: "0 < cols t"
    and r: "1 \<le> rows t" and y: "0 \<le> ybase t"
  shows "\<exists>a b. finalHighlightStart m = Some a \<and> finalHighlightEnd t m = Some b \<and>
           snd a \<le> snd b \<and> (snd a = snd b \<longrightarrow> fst a \<le> fst b)"
proof (cases "isHighlightAllActive m")
  case True
  with r y c show ?thesis
    by (simp add: finalHighlightStart_def finalHighlightEnd_def)
next
  case noAll: False
  show ?thesis
  proof (cases "areHighlightValuesReversed m")
    case True
    then have rev: "snd s > snd e \<or> (snd s = snd e \<and> fst s > fst e)"
      using areHighlightValuesReversed_both [OF s e] by simp
    have st: "finalHighlightStart m = Some e"
      using noAll True by (simp add: finalHighlightStart_both [OF s e])
    note en = finalHighlightEnd_from_length [OF noAll s disjI2 [OF True], of t]
    show ?thesis
    proof (cases "fst s + highlightStartLength m > cols t")
      case wrap: True
      have "1 \<le> (fst s + highlightStartLength m) div cols t"
        using c wrap by (rule wrap_row_advances) 
      with rev have "snd e < snd s + math_floor_div (fst s + highlightStartLength m) (cols t)"
        by (auto simp: math_floor_div_def)
      with st en wrap show ?thesis by simp
    next
      case False
      from rev len have "snd e \<le> snd s \<and> (snd e = snd s \<longrightarrow> fst e \<le> fst s + highlightStartLength m)"
        by auto
      with st en False show ?thesis by simp
    qed
  next
    case False
    then have nrev: "snd s < snd e \<or> (snd s = snd e \<and> fst s \<le> fst e)"
      using areHighlightValuesReversed_both [OF s e] by auto
    have st: "finalHighlightStart m = Some s"
      using noAll False by (simp add: finalHighlightStart_both [OF s e])
    note en = finalHighlightEnd_forward [OF noAll s e False, of t]
    show ?thesis
    proof (cases "highlightStartLength m \<noteq> 0 \<and> snd e = snd s")
      case True
      with nrev st en show ?thesis by simp
    next
      case False
      with nrev st en show ?thesis by auto
    qed
  qed
qed

theorem finalHighlight_normalized_witness:
  "finalHighlightStart \<lparr>isHighlightAllActive = False, highlightStart = Some (8, 3),
      highlightStartLength = 5, highlightEnd = Some (2, 1)\<rparr> = Some (2, 1) \<and>
   finalHighlightEnd \<lparr>cols = 10, rows = 24, ybase = 0, lines = []\<rparr>
     \<lparr>isHighlightAllActive = False, highlightStart = Some (8, 3),
      highlightStartLength = 5, highlightEnd = Some (2, 1)\<rparr> = Some (3, 4) \<and>
   finalHighlightStart \<lparr>isHighlightAllActive = True, highlightStart = Some (8, 3),
      highlightStartLength = 5, highlightEnd = Some (2, 1)\<rparr> = Some (0, 0) \<and>
   finalHighlightEnd \<lparr>cols = 10, rows = 1, ybase = 0, lines = []\<rparr>
     \<lparr>isHighlightAllActive = True, highlightStart = Some (8, 3),
      highlightStartLength = 5, highlightEnd = Some (2, 1)\<rparr> = Some (10, 0)"
  using finalHighlight_normalized [of
     "\<lparr>isHighlightAllActive = False, highlightStart = Some (8, 3),
      highlightStartLength = 5, highlightEnd = Some (2, 1)\<rparr>" "(8, 3)" "(2, 1)"
     "\<lparr>cols = 10, rows = 24, ybase = 0, lines = []\<rparr>"]
   finalHighlight_normalized [of
     "\<lparr>isHighlightAllActive = True, highlightStart = Some (8, 3),
      highlightStartLength = 5, highlightEnd = Some (2, 1)\<rparr>" "(8, 3)" "(2, 1)"
     "\<lparr>cols = 10, rows = 1, ybase = 0, lines = []\<rparr>"]
  by (simp add: finalHighlightStart_def finalHighlightEnd_def areHighlightValuesReversed_def
        js_rem_def math_floor_div_def signed_modulo_int_def)

text \<open>
  Claim C3 (end taken from start plus length). When highlight-all is not active, the start
  is set and the end is unset or the endpoints are reversed, the final end is
  \<open>(start.column + length, start.row)\<close> as long as that column does not exceed \<open>cols\<close>;
  beyond it the column is taken modulo \<open>cols\<close> and the row advances by the quotient
  (\<open>cols > 0\<close>). The instance \<open>cols = 10\<close>, start \<open>(8, 0)\<close>, length 5, no end gives \<open>(3, 1)\<close>.
\<close>

theorem finalHighlightEnd_length_wrap:
  assumes noAll: "\<not> isHighlightAllActive m" and s: "highlightStart m = Some s"
    and e: "highlightEnd m = None \<or> areHighlightValuesReversed m" and c: "0 < cols t"
  shows "finalHighlightEnd t m =
     (if fst s + highlightStartLength m \<le> cols t
      then Some (fst s + highlightStartLength m, snd s)
      else Some ((fst s + highlightStartLength m) mod cols t,
                 snd s + (fst s + highlightStartLength m) div cols t))"
proof (cases "fst s + highlightStartLength m \<le> cols t")
  case True
  then show ?thesis
    using finalHighlightEnd_from_length [OF noAll s e, of t] by simp
next
  case False
  with c have "0 \<le> fst s + highlightStartLength m" by simp
  then have "js_rem (fst s + highlightStartLength m) (cols t) =
      (fst s + highlightStartLength m) mod cols t"
    using c by (rule js_rem_nonneg)
  with False show ?thesis
    using finalHighlightEnd_from_length [OF noAll s e, of t]
    by (simp add: math_floor_div_def)
qed

theorem finalHighlightEnd_length_wrap_witness:
  "finalHighlightEnd \<lparr>cols = 10, rows = 24, ybase = 0, lines = []\<rparr>
     \<lparr>isHighlightAllActive = False, highlightStart = Some (8, 0),
      highlightStartLength = 5, highlightEnd = None\<rparr> = Some (3, 1)"
  using finalHighlightEnd_length_wrap [of
     "\<lparr>isHighlightAllActive = False, highlightStart = Some (8, 0),
      highlightStartLength = 5, highlightEnd = None\<rparr>" "(8, 0)"
     "\<lparr>cols = 10, rows = 24, ybase = 0, lines = []\<rparr>"]
  by simp

text \<open>
  Claim C3 as stated covers every state with a start and no end. With highlight-all active
  the same state yields the whole-buffer end \<open>(10, 23)\<close>, not \<open>(3, 1)\<close>.
\<close>

theorem finalHighlightEnd_length_selectAll_counterexample:
  "highlightStart \<lparr>isHighlightAllActive = True, highlightStart = Some (8, 0),
      highlightStartLength = 5, highlightEnd = None\<rparr> = Some (8, 0) \<and>
   highlightEnd \<lparr>isHighlightAllActive = True, highlightStart = Some (8, 0),
      highlightStartLength = 5, highlightEnd = None\<rparr> = None \<and>
   finalHighlightEnd \<lparr>cols = 10, rows = 24, ybase = 0, lines = []\<rparr>
     \<lparr>isHighlightAllActive = True, highlightStart = Some (8, 0),
      highlightStartLength = 5, highlightEnd = None\<rparr> = Some (10, 23) \<and>
   (10 :: int, 23 :: int) \<noteq> ((8 + 5) mod 10, 0 + (8 + 5) div 10)"
  by (simp add: finalHighlightEnd_def)

text \<open>
  Claim C4 (length-anchored extension). When highlight-all is not active and both endpoints
  are set and not reversed: with a positive start length and both endpoints on one row the
  final end is \<open>(max (start.column + length) end.column, end.row)\<close>; otherwise it is the
  stored end. The instance start \<open>(3, 0)\<close>, length 4, end \<open>(5, 0)\<close> gives \<open>(7, 0)\<close>.
\<close>

theorem finalHighlightEnd_anchor_extension:
  assumes noAll: "\<not> isHighlightAllActive m" and s: "highlightStart m = Some s"
    and e: "highlightEnd m = Some e" and nrev: "\<not> areHighlightValuesReversed m"
  shows "finalHighlightEnd t m =
     (if highlightStartLength m > 0 \<and> snd e = snd s
      then Some (max (fst s + highlightStartLength m) (fst e), snd e)
      else Some e)"
proof (cases "highlightStartLength m < 0 \<and> snd e = snd s")
  case True
  with nrev have "fst s + highlightStartLength m \<le> fst e"
    using areHighlightValuesReversed_both [OF s e] by auto
  then have "(max (fst s + highlightStartLength m) (fst e), snd e) = e"
    by (simp add: max_def prod_eq_iff)
  with True show ?thesis
    using finalHighlightEnd_forward [OF noAll s e nrev, of t] by simp
next
  case False
  then show ?thesis
    using finalHighlightEnd_forward [OF noAll s e nrev, of t] by auto
qed

theorem finalHighlightEnd_anchor_extension_witness:
  "finalHighlightEnd \<lparr>cols = 80, rows = 24, ybase = 0, lines = []\<rparr>
     \<lparr>isHighlightAllActive = False, highlightStart = Some (3, 0),
      highlightStartLength = 4, highlightEnd = Some (5, 0)\<rparr> = Some (7, 0)"
  using finalHighlightEnd_anchor_extension [of
     "\<lparr>isHighlightAllActive = False, highlightStart = Some (3, 0),
      highlightStartLength = 4, highlightEnd = Some (5, 0)\<rparr>" "(3, 0)" "(5, 0)"
     "\<lparr>cols = 80, rows = 24, ybase = 0, lines = []\<rparr>"]
  by (simp add: areHighlightValuesReversed_def)

text \<open>
  Claim C4 as stated covers every state with both endpoints set and not reversed. With
  highlight-all active the same state yields \<open>(80, 23)\<close>, not \<open>(7, 0)\<close>.
\<close>

theorem finalHighlightEnd_anchor_selectAll_counterexample:
  "highlightStart \<lparr>isHighlightAllActive = True, highlightStart = Some (3, 0),
      highlightStartLength = 4, highlightEnd = Some (5, 0)\<rparr> = Some (3, 0) \<and>
   highlightEnd \<lparr>isHighlightAllActive = True, highlightStart = Some (3, 0),
      highlightStartLength = 4, highlightEnd = Some (5, 0)\<rparr> = Some (5, 0) \<and>
   \<not> areHighlightValuesReversed \<lparr>isHighlightAllActive = True, highlightStart = Some (3, 0),
      highlightStartLength = 4, highlightEnd = Some (5, 0)\<rparr> \<and>
   finalHighlightEnd \<lparr>cols = 80, rows = 24, ybase = 0, lines = []\<rparr>
     \<lparr>isHighlightAllActive = True, highlightStart = Some (3, 0),
      highlightStartLength = 4, highlightEnd = Some (5, 0)\<rparr> = Some (80, 23) \<and>
   (80 :: int, 23 :: int) \<noteq> (max (3 + 4) 5, 0)"
  by (simp add: finalHighlightEnd_def areHighlightValuesReversed_def)

text \<open>
  Claim C5 (\<open>onTrim\<close>). Both rows that are set go down by \<open>amount\<close>. If the end row is then
  negative the model is cleared (no start, no end, length 0, highlight-all off) and the
  result is \<open>True\<close>. Otherwise the result is \<open>False\<close>, a negative start row is put to 0 with
  its column kept, and nothing else changes.
\<close>

theorem onTrim_shifts_clears_clamps:
  "onTrim amount m =
     (if (case highlightEnd m of None \<Rightarrow> False | Some e \<Rightarrow> snd e - amount < 0)
      then (\<lparr>isHighlightAllActive = False, highlightStart = None,
             highlightStartLength = 0, highlightEnd = None\<rparr>, True)
      else (\<lparr>isHighlightAllActive = isHighlightAllActive m,
             highlightStart =
               (case highlightStart m of None \<Rightarrow> None
                | Some s \<Rightarrow> Some (fst s, if snd s - amount < 0 then 0 else snd s - amount)),
             highlightStartLength = highlightStartLength m,
             highlightEnd =
               (case highlightEnd m of None \<Rightarrow> None
                | Some e \<Rightarrow> Some (fst e, snd e - amount))\<rparr>, False))"
  by (cases m) (simp add: onTrim_def clearHighlight_def Let_def split: option.splits)

theorem onTrim_shifts_clears_clamps_witness:
  "onTrim 2 \<lparr>isHighlightAllActive = False, highlightStart = Some (2, 1),
      highlightStartLength = 0, highlightEnd = Some (5, 1)\<rparr> =
     (\<lparr>isHighlightAllActive = False, highlightStart = None,
       highlightStartLength = 0, highlightEnd = None\<rparr>, True) \<and>
   onTrim 2 \<lparr>isHighlightAllActive = False, highlightStart = Some (2, 1),
      highlightStartLength = 0, highlightEnd = Some (5, 5)\<rparr> =
     (\<lparr>isHighlightAllActive = False, highlightStart = Some (2, 0),
       highlightStartLength = 0, highlightEnd = Some (5, 3)\<rparr>, False)"
  using onTrim_shifts_clears_clamps [of 2 "\<lparr>isHighlightAllActive = False, highlightStart = Some (2, 1),
      highlightStartLength = 0, highlightEnd = Some (5, 1)\<rparr>"]
    onTrim_shifts_clears_clamps [of 2 "\<lparr>isHighlightAllActive = False, highlightStart = Some (2, 1),
      highlightStartLength = 0, highlightEnd = Some (5, 5)\<rparr>"]
  by simp

lemma tenRow_facts:
  "linesGet tenRowTerminal 10 = None" "cols tenRowTerminal = 80"
  "int (length (lines tenRowTerminal)) = 10"
  by (simp_all add: linesGet_def tenRowTerminal_def)

lemma highlightLines_stored:
  "highlightLines t start end' m =
     \<lparr>isHighlightAllActive = False, highlightStart = Some (0, max start 0),
      highlightStartLength = 0,
      highlightEnd = Some (cols t, min end' (int (length (lines t)) - 1))\<rparr>"
  by (cases m) (simp add: highlightLines_def clearHighlight_def Let_def)

text \<open>
  Claim C6 (\<open>highlightLines\<close> keeps both rows inside the buffer). The claim does not hold of
  the code: the start row is bounded below only and the end row above only. On a buffer of
  ten rows \<open>highlightLines 12 15\<close> stores the start row 12, beyond the last row 9, and the
  end row 9; the highlighted text of that state then reads \<open>isWrapped\<close> of row 10, which
  does not exist, and throws.
\<close>

theorem highlightLines_start_beyond_buffer:
  "highlightStart (highlightLines tenRowTerminal 12 15 m) = Some (0, 12) \<and>
   highlightEnd (highlightLines tenRowTerminal 12 15 m) = Some (80, 9) \<and>
   int (length (lines tenRowTerminal)) - 1 = 9 \<and>
   highlightText translateRange isMSWindows tenRowTerminal NORMAL
     (highlightLines tenRowTerminal 12 15 m) = Inl TypeError"
  by (simp add: highlightLines_stored tenRow_facts highlightText_def
        finalHighlightStart_def finalHighlightEnd_def areHighlightValuesReversed_def
        pushOrAppend_def)

section \<open>Properties of the column conversion\<close>









section \<open>Properties of the highlighted text\<close>

text \<open>
  Claim C9 (\<open>highlightText\<close>). The text is empty whenever the final start or the final end
  is missing, and in column mode whenever the final start and the final end have the same
  column. Neither case reads the buffer.
\<close>

theorem highlightText_empty:
  "(finalHighlightStart m = None \<or> finalHighlightEnd t m = None \<longrightarrow>
      highlightText translateRange isMSWindows t mode m = Inr []) \<and>
   (\<forall>start end'. finalHighlightStart m = Some start \<and> finalHighlightEnd t m = Some end' \<and>
      fst start = fst end' \<longrightarrow>
      highlightText translateRange isMSWindows t COLUMN m = Inr [])"
  by (auto simp: highlightText_def split: option.splits)

theorem highlightText_empty_witness:
  "highlightText (\<lambda>i trimRight startCol endCol. [120]) False
     \<lparr>cols = 80, rows = 24, ybase = 0, lines = []\<rparr> NORMAL
     \<lparr>isHighlightAllActive = False, highlightStart = None,
      highlightStartLength = 0, highlightEnd = None\<rparr> = Inr [] \<and>
   highlightText (\<lambda>i trimRight startCol endCol. [120]) False
     \<lparr>cols = 80, rows = 24, ybase = 0, lines = []\<rparr> COLUMN
     \<lparr>isHighlightAllActive = False, highlightStart = Some (3, 0),
      highlightStartLength = 0, highlightEnd = Some (3, 2)\<rparr> = Inr []"
  using highlightText_empty [of
     "\<lparr>isHighlightAllActive = False, highlightStart = None,
      highlightStartLength = 0, highlightEnd = None\<rparr>"
     "\<lparr>cols = 80, rows = 24, ybase = 0, lines = []\<rparr>"
     "\<lambda>i trimRight startCol endCol. [120]" False NORMAL]
   highlightText_empty [of
     "\<lparr>isHighlightAllActive = False, highlightStart = Some (3, 0),
      highlightStartLength = 0, highlightEnd = Some (3, 2)\<rparr>"
     "\<lparr>cols = 80, rows = 24, ybase = 0, lines = []\<rparr>"
     "\<lambda>i trimRight startCol endCol. [120]" False COLUMN]
  by (simp add: finalHighlightStart_def finalHighlightEnd_def areHighlightValuesReversed_def)

section \<open>Properties of the word detection\<close>

subsection \<open>Evaluation on the example buffers\<close>

lemmas row_eval = translateBufferLineToString_def renderCells_def asciiCell_def bufferLineGet_def
  convertViewportColToCharacterIndex_def scanWordInRow_def expandWord_def charAt_def
  isCharWordSeparator_def js_indexOf_def WORD_SEPARATORS_def Let_def
  wideEmojiCell_def continuationCell_def

lemmas word_eval = js_trim_def js_slice_def js_whitespace_def wrapsFromAbove_def
  wrapsIntoBelow_def asciiCell_def

lemma foobar_lines:
  "linesGet foobarTerminal (- 1) = None" "linesGet foobarTerminal 0 = Some foobRow"
  "linesGet foobarTerminal 1 = Some arRow" "linesGet foobarTerminal 2 = None"
  "cols foobarTerminal = 4"
  by (simp_all add: linesGet_def foobarTerminal_def)

lemma foobar_cells:
  "bufferLineGet foobRow 0 = Some (asciiCell 102)" "bufferLineGet foobRow 3 = Some (asciiCell 98)"
  "bufferLineGet arRow 0 = Some (asciiCell 97)" "bufferLineGet arRow 3 = Some (asciiCell 32)"
  "isWrapped foobRow = False" "isWrapped arRow = True"
  by (simp_all add: bufferLineGet_def foobRow_def arRow_def)

lemma scan_foob:
  "scanWordInRow foobarTerminal foobRow (3, 0) =
     Inr \<lparr>scan_line = [102, 111, 111, 98], scan_startIndex = 0, scan_endIndex = 4,
          scan_start = 0, scan_length = 4\<rparr>"
  by (simp add: row_eval foobRow_def foobarTerminal_def)

lemma scan_ar:
  "scanWordInRow foobarTerminal arRow (0, 1) =
     Inr \<lparr>scan_line = [97, 114, 32, 32], scan_startIndex = 0, scan_endIndex = 2,
          scan_start = 0, scan_length = 2\<rparr>"
  by (simp add: row_eval arRow_def foobarTerminal_def)

lemma word_ar_below:
  "getWordAt foobarTerminal (0, 1) False False True = Inr (Some \<lparr>wstart = 0, wlength = 2\<rparr>)"
  by (simp add: getWordAt.simps [of _ "(0, 1)"] foobar_lines foobar_cells scan_ar word_eval)

lemma word_foob_above:
  "getWordAt foobarTerminal (3, 0) False True False = Inr (Some \<lparr>wstart = 0, wlength = 4\<rparr>)"
  by (simp add: getWordAt.simps [of _ "(3, 0)"] foobar_lines foobar_cells scan_foob word_eval)

lemma word_ar_full:
  "getWordAt foobarTerminal (0, 1) False True True = Inr (Some \<lparr>wstart = - 4, wlength = 6\<rparr>)"
  by (simp add: getWordAt.simps [of _ "(0, 1)"] foobar_lines foobar_cells scan_ar word_eval
        word_foob_above)

lemma word_foob_row_only:
  "getWordAt foobarTerminal (3, 0) False False False = Inr (Some \<lparr>wstart = 0, wlength = 4\<rparr>)"
  by (simp add: getWordAt.simps [of _ "(3, 0)"] foobar_lines scan_foob word_eval)

lemma scan_spaces:
  "scanWordInRow foobarTerminal arRow (2, 1) =
     Inr \<lparr>scan_line = [97, 114, 32, 32], scan_startIndex = 2, scan_endIndex = 4,
          scan_start = 2, scan_length = 2\<rparr>"
  by (simp add: row_eval arRow_def foobarTerminal_def)

lemma word_spaces:
  "getWordAt foobarTerminal (2, 1) False True True = Inr None"
  by (simp add: getWordAt.simps [of _ "(2, 1)"] foobar_lines scan_spaces word_eval)









subsection \<open>The claims about the word detection\<close>

text \<open>
  Claim C2 (wrapped continuation). With four columns, row 0 holding \<open>foob\<close> (not wrapped)
  and row 1 holding \<open>ar\<close> and two spaces (wrapped), all cells of width 1 with one code unit,
  the word at column 3 of row 0, white space not allowed, starts at column 0 and has
  length 6.
\<close>

theorem getWordAt_wrapped_continuation:
  "getWordAt foobarTerminal (3, 0) False True True = Inr (Some \<lparr>wstart = 0, wlength = 6\<rparr>)"
  by (simp add: getWordAt.simps [of _ "(3, 0)"] foobar_lines foobar_cells scan_foob word_eval word_ar_below)

lemma scanWordInRow_length_le:
  "scanWordInRow t bufferLine coords = Inr scan \<Longrightarrow> scan_length scan \<le> cols t"
  unfolding scanWordInRow_def Let_def
  by (auto split: sum.splits prod.splits)

lemma getWordAt_row:
  assumes "getWordAt t coords allow followAbove followBelow = Inr (Some w)"
  shows "\<not> cols t \<le> fst coords \<and> (\<exists>bufferLine scan. linesGet t (snd coords) = Some bufferLine \<and>
     scanWordInRow t bufferLine coords = Inr scan \<and>
     \<not> (\<not> allow \<and> js_trim (js_slice (scan_line scan) (scan_startIndex scan) (scan_endIndex scan)) = []))"
proof -
  have c: "\<not> cols t \<le> fst coords"
    using assms by (subst (asm) getWordAt.simps) (simp split: if_splits)
  then obtain bufferLine where b: "linesGet t (snd coords) = Some bufferLine"
    using assms by (subst (asm) getWordAt.simps) (simp split: option.splits)
  from c b obtain scan where sc: "scanWordInRow t bufferLine coords = Inr scan"
    using assms by (subst (asm) getWordAt.simps) (simp split: sum.splits)
  have "\<not> (\<not> allow \<and> js_trim (js_slice (scan_line scan) (scan_startIndex scan) (scan_endIndex scan)) = [])"
    using assms c b sc by (subst (asm) getWordAt.simps) (simp split: if_splits)
  with c b sc show ?thesis by blast
qed

lemma getWordAt_unfold:
  assumes c: "\<not> cols t \<le> fst coords" and b: "linesGet t (snd coords) = Some bufferLine"
    and sc: "scanWordInRow t bufferLine coords = Inr scan"
    and nw: "\<not> (\<not> allow \<and>
       js_trim (js_slice (scan_line scan) (scan_startIndex scan) (scan_endIndex scan)) = [])"
    and up: "(if followAbove then
           (case wrapsFromAbove t bufferLine coords (scan_start scan) of
              Inl e \<Rightarrow> Inl e
            | Inr False \<Rightarrow> Inr None
            | Inr True \<Rightarrow> getWordAt t (cols t - 1, snd coords - 1) False True False)
         else Inr None) = Inr prev"
    and off: "offset = (case prev of None \<Rightarrow> 0 | Some p \<Rightarrow> cols t - wstart p)"
  shows "getWordAt t coords allow followAbove followBelow =
     (case (if followBelow then
              (case wrapsIntoBelow t bufferLine coords (scan_start scan - offset)
                      (scan_length scan + offset) of
                 Inl e \<Rightarrow> Inl e
               | Inr False \<Rightarrow> Inr None
               | Inr True \<Rightarrow> getWordAt t (0, snd coords + 1) False False True)
            else Inr None) of
        Inl e \<Rightarrow> Inl e
      | Inr nextLineWordPosition \<Rightarrow>
          Inr (Some \<lparr>wstart = scan_start scan - offset,
                     wlength = (case nextLineWordPosition of
                                  None \<Rightarrow> scan_length scan + offset
                                | Some p \<Rightarrow> scan_length scan + offset + wlength p)\<rparr>))"
  unfolding off
  by (subst getWordAt.simps) (simp add: c b sc nw up Let_def)

lemma getWordAt_unfold_Inl:
  assumes c: "\<not> cols t \<le> fst coords" and b: "linesGet t (snd coords) = Some bufferLine"
    and sc: "scanWordInRow t bufferLine coords = Inr scan"
    and nw: "\<not> (\<not> allow \<and>
       js_trim (js_slice (scan_line scan) (scan_startIndex scan) (scan_endIndex scan)) = [])"
    and up: "(if followAbove then
           (case wrapsFromAbove t bufferLine coords (scan_start scan) of
              Inl e \<Rightarrow> Inl e
            | Inr False \<Rightarrow> Inr None
            | Inr True \<Rightarrow> getWordAt t (cols t - 1, snd coords - 1) False True False)
         else Inr None) = Inl e"
  shows "getWordAt t coords allow followAbove followBelow = Inl e"
  by (subst getWordAt.simps) (simp add: c b sc nw up)

lemma wrapsFromAbove_True:
  "wrapsFromAbove t bufferLine coords start = Inr True \<Longrightarrow>
   start = 0 \<and> isWrapped bufferLine \<and>
   (\<exists>firstChar previousBufferLine lastChar.
      bufferLineGet bufferLine 0 = Some firstChar \<and> char_data_code firstChar \<noteq> 32 \<and>
      linesGet t (snd coords - 1) = Some previousBufferLine \<and>
      bufferLineGet previousBufferLine (cols t - 1) = Some lastChar \<and>
      char_data_code lastChar \<noteq> 32)"
  by (auto simp: wrapsFromAbove_def split: if_splits option.splits)

lemma wrapsIntoBelow_True:
  "wrapsIntoBelow t bufferLine coords start len = Inr True \<Longrightarrow>
   start + len = cols t \<and>
   (\<exists>lastChar nextBufferLine firstChar.
      bufferLineGet bufferLine (cols t - 1) = Some lastChar \<and> char_data_code lastChar \<noteq> 32 \<and>
      linesGet t (snd coords + 1) = Some nextBufferLine \<and> isWrapped nextBufferLine \<and>
      bufferLineGet nextBufferLine 0 = Some firstChar \<and> char_data_code firstChar \<noteq> 32)"
  by (auto simp: wrapsIntoBelow_def split: if_splits option.splits)

text \<open>
  Claim C10 (the length cap), as the code has it. The length found inside one row is capped
  by \<open>min cols\<close>, and the returned length is that length plus what the two continuations
  add. The row above adds \<open>cols - start\<close> of the position found there, and only when
  \<open>followWrappedLinesAbove\<close> is set, the row's own span starts at column 0, the row is
  wrapped, and neither its first cell nor the last cell of the row above is a space. The
  row below adds the length of the position found there, and only when
  \<open>followWrappedLinesBelow\<close> is set, the row's own span ends at the last column, the row
  below is wrapped, and neither the row's last cell nor the first cell of the row below is
  a space. With both flags off the length is at most \<open>cols\<close>.
\<close>

theorem getWordAt_length_exceeds_by_continuation:
  assumes w: "getWordAt t coords allow followAbove followBelow = Inr (Some w)"
  shows "\<exists>bufferLine scan fromAbove fromBelow.
     linesGet t (snd coords) = Some bufferLine \<and>
     scanWordInRow t bufferLine coords = Inr scan \<and>
     scan_length scan \<le> cols t \<and>
     wlength w = scan_length scan + fromAbove + fromBelow \<and>
     (fromAbove = 0 \<or>
      (followAbove \<and> scan_start scan = 0 \<and> isWrapped bufferLine \<and>
       (\<exists>firstChar previousBufferLine lastChar p.
          bufferLineGet bufferLine 0 = Some firstChar \<and> char_data_code firstChar \<noteq> 32 \<and>
          linesGet t (snd coords - 1) = Some previousBufferLine \<and>
          bufferLineGet previousBufferLine (cols t - 1) = Some lastChar \<and>
          char_data_code lastChar \<noteq> 32 \<and>
          getWordAt t (cols t - 1, snd coords - 1) False True False = Inr (Some p) \<and>
          fromAbove = cols t - wstart p))) \<and>
     (fromBelow = 0 \<or>
      (followBelow \<and> scan_start scan + scan_length scan = cols t \<and>
       (\<exists>lastChar nextBufferLine firstChar p.
          bufferLineGet bufferLine (cols t - 1) = Some lastChar \<and> char_data_code lastChar \<noteq> 32 \<and>
          linesGet t (snd coords + 1) = Some nextBufferLine \<and> isWrapped nextBufferLine \<and>
          bufferLineGet nextBufferLine 0 = Some firstChar \<and> char_data_code firstChar \<noteq> 32 \<and>
          getWordAt t (0, snd coords + 1) False False True = Inr (Some p) \<and>
          fromBelow = wlength p))) \<and>
     (\<not> followAbove \<and> \<not> followBelow \<longrightarrow> wlength w \<le> cols t)"
proof -
  from getWordAt_row [OF w] obtain bufferLine scan where
    c: "\<not> cols t \<le> fst coords" and b: "linesGet t (snd coords) = Some bufferLine" and
    sc: "scanWordInRow t bufferLine coords = Inr scan" and
    nw: "\<not> (\<not> allow \<and> js_trim (js_slice (scan_line scan) (scan_startIndex scan) (scan_endIndex scan)) = [])"
    by blast
  define upper where "upper =
    (if followAbove then
       (case wrapsFromAbove t bufferLine coords (scan_start scan) of
          Inl e \<Rightarrow> Inl e
        | Inr False \<Rightarrow> Inr None
        | Inr True \<Rightarrow> getWordAt t (cols t - 1, snd coords - 1) False True False)
     else Inr None)"
  obtain prev where up: "upper = Inr prev"
  proof (cases upper)
    case (Inl e)
    from getWordAt_unfold_Inl [OF c b sc nw Inl [unfolded upper_def]] w show ?thesis by simp
  next
    case (Inr prev)
    then show ?thesis by (rule that)
  qed
  define fromAbove where "fromAbove = (case prev of None \<Rightarrow> 0 | Some p \<Rightarrow> cols t - wstart p)"
  define lower where "lower =
    (if followBelow then
       (case wrapsIntoBelow t bufferLine coords (scan_start scan - fromAbove)
               (scan_length scan + fromAbove) of
          Inl e \<Rightarrow> Inl e
        | Inr False \<Rightarrow> Inr None
        | Inr True \<Rightarrow> getWordAt t (0, snd coords + 1) False False True)
     else Inr None)"
  note eq = getWordAt_unfold [OF c b sc nw up [unfolded upper_def] fromAbove_def,
      of followBelow, folded lower_def]
  from w eq obtain nxt where lo: "lower = Inr nxt"
    by (cases lower) simp_all
  define fromBelow where "fromBelow = (case nxt of None \<Rightarrow> 0 | Some p \<Rightarrow> wlength p)"
  from w eq lo have len: "wlength w = scan_length scan + fromAbove + fromBelow"
    by (auto simp: fromBelow_def split: option.splits)
  have above: "fromAbove = 0 \<or>
      (followAbove \<and> scan_start scan = 0 \<and> isWrapped bufferLine \<and>
       (\<exists>firstChar previousBufferLine lastChar p.
          bufferLineGet bufferLine 0 = Some firstChar \<and> char_data_code firstChar \<noteq> 32 \<and>
          linesGet t (snd coords - 1) = Some previousBufferLine \<and>
          bufferLineGet previousBufferLine (cols t - 1) = Some lastChar \<and>
          char_data_code lastChar \<noteq> 32 \<and>
          getWordAt t (cols t - 1, snd coords - 1) False True False = Inr (Some p) \<and>
          fromAbove = cols t - wstart p))"
  proof (cases prev)
    case None
    then show ?thesis by (simp add: fromAbove_def)
  next
    case (Some p)
    with up have fa: followAbove
      and wr: "wrapsFromAbove t bufferLine coords (scan_start scan) = Inr True"
      and call: "getWordAt t (cols t - 1, snd coords - 1) False True False = Inr (Some p)"
      unfolding upper_def by (simp_all split: if_splits sum.splits bool.splits)
    from wrapsFromAbove_True [OF wr] fa call Some show ?thesis
      by (auto simp: fromAbove_def)
  qed
  have below: "fromBelow = 0 \<or>
      (followBelow \<and> scan_start scan + scan_length scan = cols t \<and>
       (\<exists>lastChar nextBufferLine firstChar p.
          bufferLineGet bufferLine (cols t - 1) = Some lastChar \<and> char_data_code lastChar \<noteq> 32 \<and>
          linesGet t (snd coords + 1) = Some nextBufferLine \<and> isWrapped nextBufferLine \<and>
          bufferLineGet nextBufferLine 0 = Some firstChar \<and> char_data_code firstChar \<noteq> 32 \<and>
          getWordAt t (0, snd coords + 1) False False True = Inr (Some p) \<and>
          fromBelow = wlength p))"
  proof (cases nxt)
    case None
    then show ?thesis by (simp add: fromBelow_def)
  next
    case (Some p)
    with lo have fb: followBelow
      and wr: "wrapsIntoBelow t bufferLine coords (scan_start scan - fromAbove)
                 (scan_length scan + fromAbove) = Inr True"
      and call: "getWordAt t (0, snd coords + 1) False False True = Inr (Some p)"
      unfolding lower_def by (simp_all split: if_splits sum.splits bool.splits)
    from wrapsIntoBelow_True [OF wr] fb call Some show ?thesis
      by (auto simp: fromBelow_def)
  qed
  note le = scanWordInRow_length_le [OF sc]
  from above below len le have "\<not> followAbove \<and> \<not> followBelow \<longrightarrow> wlength w \<le> cols t"
    by auto
  with b sc le len above below show ?thesis by blast
qed

theorem getWordAt_length_exceeds_by_continuation_witness:
  "\<exists>bufferLine scan fromAbove fromBelow.
     linesGet foobarTerminal 1 = Some bufferLine \<and>
     scanWordInRow foobarTerminal bufferLine (0, 1) = Inr scan \<and>
     scan_length scan \<le> 4 \<and>
     6 = scan_length scan + fromAbove + fromBelow \<and>
     (fromAbove = 0 \<or>
      (scan_start scan = 0 \<and> isWrapped bufferLine \<and>
       (\<exists>firstChar previousBufferLine lastChar p.
          bufferLineGet bufferLine 0 = Some firstChar \<and> char_data_code firstChar \<noteq> 32 \<and>
          linesGet foobarTerminal 0 = Some previousBufferLine \<and>
          bufferLineGet previousBufferLine 3 = Some lastChar \<and>
          char_data_code lastChar \<noteq> 32 \<and>
          getWordAt foobarTerminal (3, 0) False True False = Inr (Some p) \<and>
          fromAbove = 4 - wstart p))) \<and>
     fromBelow = 0"
  using getWordAt_length_exceeds_by_continuation [OF word_ar_full]
  by (simp add: foobar_lines)

text \<open>
  Claim C10 as stated lets the length exceed the viewport width only through the row
  below. At column 0 of the wrapped row \<open>ar\<close> the length is 6 with four columns, added from
  the row above; there is no row below.
\<close>

theorem getWordAt_above_counterexample:
  "getWordAt foobarTerminal (0, 1) False True True = Inr (Some \<lparr>wstart = - 4, wlength = 6\<rparr>) \<and>
   cols foobarTerminal = 4 \<and> linesGet foobarTerminal (1 + 1) = None \<and>
   getWordAt foobarTerminal (0, 1) False True False = Inr (Some \<lparr>wstart = - 4, wlength = 6\<rparr>)"
  by (simp add: getWordAt.simps [of _ "(0, 1)"] foobar_lines foobar_cells scan_ar word_eval
        word_foob_above)

text \<open>
  The \<open>null\<close> results of \<open>_getWordAt\<close> are exactly the three the specification lists: the
  column is not below \<open>cols\<close>, the row does not exist, or white space is not allowed and the
  slice of the rendered line between the two indices trims to the empty string. This holds
  for every row class.
\<close>

lemma getWordAt_null_cases:
  "getWordAt t coords allow followAbove followBelow = Inr None \<longleftrightarrow>
     cols t \<le> fst coords \<or> linesGet t (snd coords) = None \<or>
     (\<exists>bufferLine scan. linesGet t (snd coords) = Some bufferLine \<and>
        scanWordInRow t bufferLine coords = Inr scan \<and> \<not> allow \<and>
        js_trim (js_slice (scan_line scan) (scan_startIndex scan) (scan_endIndex scan)) = [])"
proof (cases "cols t \<le> fst coords")
  case True
  then show ?thesis by (subst getWordAt.simps) simp
next
  case c: False
  show ?thesis
  proof (cases "linesGet t (snd coords)")
    case None
    with c show ?thesis by (subst getWordAt.simps) simp
  next
    case (Some bufferLine)
    show ?thesis
    proof (cases "scanWordInRow t bufferLine coords")
      case (Inl e)
      with c Some show ?thesis by (subst getWordAt.simps) simp
    next
      case (Inr scan)
      show ?thesis
      proof (cases "\<not> allow \<and>
          js_trim (js_slice (scan_line scan) (scan_startIndex scan) (scan_endIndex scan)) = []")
        case True
        with c Some Inr show ?thesis by (subst getWordAt.simps) simp
      next
        case False
        have "getWordAt t coords allow followAbove followBelow \<noteq> Inr None"
          by (subst getWordAt.simps)
             (simp add: c Some Inr False Let_def split: sum.splits)
        with c Some Inr False show ?thesis by auto
      qed
    qed
  qed
qed

lemma getWordAt_null_iff:
  "getWordAt t coords allow followAbove followBelow = Inr None \<longleftrightarrow>
     cols t \<le> fst coords \<or> linesGet t (snd coords) = None \<or>
     (\<exists>bufferLine scan. linesGet t (snd coords) = Some bufferLine \<and>
        scanWordInRow t bufferLine coords = Inr scan \<and> \<not> allow \<and>
        js_trim (js_slice (scan_line scan) (scan_startIndex scan) (scan_endIndex scan)) = [])"
  by (rule getWordAt_null_cases)

lemma getWordAt_null_iff_witness:
  "getWordAt foobarTerminal (2, 1) False True True = Inr None \<and>
   getWordAt foobarTerminal (4, 0) True True True = Inr None \<and>
   getWordAt foobarTerminal (0, 2) True True True = Inr None"
  using getWordAt_null_iff [of foobarTerminal "(2, 1)" False True True]
    getWordAt_null_iff [of foobarTerminal "(4, 0)" True True True]
    getWordAt_null_iff [of foobarTerminal "(0, 2)" True True True]
  by (simp add: foobar_lines scan_spaces word_eval)

subsection \<open>Rows that return a cell at every column\<close>




















end
